theory Spec2Isabelle
  imports Complex_Main
begin

section \<open>Time, randomness and latency\<close>

text \<open>
  A \<^verbatim>\<open>datetime\<close> is an instant in microseconds (the resolution of Python's
  \<^verbatim>\<open>datetime\<close>) since the epoch, as an unbounded integer; the upper limit of
  Python's type (year 9999) is not modelled. \<^verbatim>\<open>timedelta(days=n)\<close> is
  \<open>n\<close> days of microseconds.
\<close>

type_synonym datetime = int

definition timedelta_days :: "int \<Rightarrow> int" where
  "timedelta_days n = n * 86400000000"

text \<open>
  The code reads the wall clock with \<^verbatim>\<open>datetime.now(timezone.utc)\<close>, draws from
  the shared random source with \<^verbatim>\<open>random.random()\<close> and blocks with
  \<^verbatim>\<open>time.sleep\<close>. The world holds the successive clock readings and the
  successive random draws with the number of each consumed so far, and the log of the
  durations slept. Every call of \<^verbatim>\<open>datetime.now\<close> is a reading of its own.
\<close>

record world =
  clock :: "nat \<Rightarrow> datetime"
  ticks :: nat
  draws :: "nat \<Rightarrow> real"
  drawn :: nat
  slept :: "real list"

definition datetime_now :: "world \<Rightarrow> datetime \<times> world" where
  "datetime_now w = (clock w (ticks w), w\<lparr>ticks := Suc (ticks w)\<rparr>)"

definition random_random :: "world \<Rightarrow> real \<times> world" where
  "random_random w = (draws w (drawn w), w\<lparr>drawn := Suc (drawn w)\<rparr>)"

definition time_sleep :: "real \<Rightarrow> world \<Rightarrow> world" where
  "time_sleep d w = w\<lparr>slept := slept w @ [d]\<rparr>"

text \<open>\<^verbatim>\<open>random.random()\<close> returns a float in the half-open interval from 0 to 1.\<close>

definition random_source_ok :: "world \<Rightarrow> bool" where
  "random_source_ok w = (\<forall>n. 0 \<le> draws w n \<and> draws w n < 1)"

section \<open>The certificate authority simulator (certbot\_mock.py)\<close>

text \<open>
  An entry of \<^verbatim>\<open>CertbotMock.certs\<close>: a dictionary with the keys \<^verbatim>\<open>status\<close>,
  \<^verbatim>\<open>expires_at\<close> and \<^verbatim>\<open>issued_at\<close>, and \<^verbatim>\<open>renewed_at\<close>,
  \<^verbatim>\<open>revoked_at\<close> once a renewal or a revocation has succeeded.
\<close>

record cert =
  status :: string
  cert_expires_at :: datetime
  issued_at :: datetime
  renewed_at :: "datetime option"
  revoked_at :: "datetime option"

record CertbotMock =
  success_rate :: real
  delay :: real
  certs :: "string \<rightharpoonup> cert"

definition CertbotMock_init :: "real \<Rightarrow> real \<Rightarrow> CertbotMock" where
  "CertbotMock_init sr dl = \<lparr>success_rate = sr, delay = dl, certs = Map.empty\<rparr>"

definition certbot_issue_certificate ::
  "CertbotMock \<Rightarrow> string \<Rightarrow> world \<Rightarrow> (bool \<times> string option \<times> datetime option) \<times> CertbotMock \<times> world" where
  "certbot_issue_certificate self d w =
     (let w1 = time_sleep (delay self) w;
          (r, w2) = random_random w1
      in if r < success_rate self then
           (let (t1, w3) = datetime_now w2;
                expiry = t1 + timedelta_days 90;
                (t2, w4) = datetime_now w3;
                self' = self\<lparr>certs := (certs self)(d \<mapsto>
                          \<lparr>status = ''issued'', cert_expires_at = expiry, issued_at = t2,
                           renewed_at = None, revoked_at = None\<rparr>)\<rparr>
            in ((True, None, Some expiry), self', w4))
         else ((False, Some (''Mock: Failed to complete challenge for '' @ d), None), self, w2))"

definition certbot_renew_certificate ::
  "CertbotMock \<Rightarrow> string \<Rightarrow> world \<Rightarrow> (bool \<times> string option \<times> datetime option) \<times> CertbotMock \<times> world" where
  "certbot_renew_certificate self d w =
     (case certs self d of
        None \<Rightarrow> ((False, Some (''Mock: No certificate found for '' @ d), None), self, w)
      | Some c \<Rightarrow>
          (let w1 = time_sleep (delay self) w;
               (r, w2) = random_random w1
           in if r < success_rate self then
                (let current_expiry = cert_expires_at c;
                     new_expiry = current_expiry + timedelta_days 90;
                     (t, w3) = datetime_now w2;
                     self' = self\<lparr>certs := (certs self)(d \<mapsto>
                               c\<lparr>cert_expires_at := new_expiry, renewed_at := Some t\<rparr>)\<rparr>
                 in ((True, None, Some new_expiry), self', w3))
              else ((False, Some (''Mock: Failed to renew certificate for '' @ d), None), self, w2)))"

definition certbot_revoke_certificate ::
  "CertbotMock \<Rightarrow> string \<Rightarrow> world \<Rightarrow> (bool \<times> string option) \<times> CertbotMock \<times> world" where
  "certbot_revoke_certificate self d w =
     (case certs self d of
        None \<Rightarrow> ((False, Some (''Mock: No certificate found for '' @ d)), self, w)
      | Some c \<Rightarrow>
          (let w1 = time_sleep (delay self) w;
               (r, w2) = random_random w1
           in if r < success_rate self then
                (let (t, w3) = datetime_now w2;
                     self' = self\<lparr>certs := (certs self)(d \<mapsto>
                               c\<lparr>status := ''revoked'', revoked_at := Some t\<rparr>)\<rparr>
                 in ((True, None), self', w3))
              else ((False, Some (''Mock: Failed to revoke certificate for '' @ d)), self, w2)))"

text \<open>
  \<^verbatim>\<open>check_certificate\<close> compares the stored expiry with the clock; the second
  comparison reads the clock again.
\<close>

definition check_certificate ::
  "CertbotMock \<Rightarrow> string \<Rightarrow> world \<Rightarrow> (bool \<times> string \<times> datetime option) \<times> world" where
  "check_certificate self d w =
     (case certs self d of
        None \<Rightarrow> ((False, ''not_found'', None), w)
      | Some c \<Rightarrow>
          if status c = ''revoked'' then ((False, ''revoked'', None), w)
          else
            (let expires = cert_expires_at c;
                 (now1, w1) = datetime_now w
             in if expires < now1 then ((False, ''expired'', Some expires), w1)
                else
                  (let (now2, w2) = datetime_now w1
                   in if expires < now2 + timedelta_days 30
                      then ((True, ''expiring_soon'', Some expires), w2)
                      else ((True, ''valid'', Some expires), w2))))"

section \<open>Python exceptions and datetime objects\<close>

datatype py_exception =
  AttributeError string | MachineError string | TypeError string | OtherError string

text \<open>
  A Python \<^verbatim>\<open>datetime\<close> object is aware (it carries a UTC offset) or naive. Ordering
  two aware or two naive ones compares their instants; ordering a naive one against an
  aware one raises \<^verbatim>\<open>TypeError\<close>.
\<close>

datatype py_datetime = Aware datetime | Naive datetime

fun datetime_lt :: "py_datetime \<Rightarrow> py_datetime \<Rightarrow> py_exception + bool" where
  "datetime_lt (Aware a) (Aware b) = Inr (a < b)"
| "datetime_lt (Naive a) (Naive b) = Inr (a < b)"
| "datetime_lt (Aware a) (Naive b) =
     Inl (TypeError ''can't compare offset-naive and offset-aware datetimes'')"
| "datetime_lt (Naive a) (Aware b) =
     Inl (TypeError ''can't compare offset-naive and offset-aware datetimes'')"

section \<open>The domain record (models.py)\<close>

text \<open>
  A row of the table \<^verbatim>\<open>certdomain\<close>. The primary key \<^verbatim>\<open>id\<close> is named
  \<open>row_id\<close> here; the timestamps are kept as instants.

  The validity helpers see \<^verbatim>\<open>self.expires_at\<close> as a Python object. Every value the
  application assigns to it is aware (\<^verbatim>\<open>datetime.now(timezone.utc)\<close> plus a
  \<^verbatim>\<open>timedelta\<close>), but the application's engine is SQLite
  (\<^verbatim>\<open>create_engine("sqlite:///certfsm.db")\<close>), whose \<^verbatim>\<open>DateTime\<close> storage keeps no
  offset: a row read back from the table, and so every attribute after a commit, carries
  naive datetimes. The helpers take that as their first argument: \<open>loaded\<close> is true when
  the attribute was read back from the table, false when it is the value just assigned.
  They read the clock only where the code does.
\<close>

record CertDomain =
  row_id :: nat
  domain :: string
  enabled :: bool
  state :: string
  expires_at :: "datetime option"
  created_at :: datetime
  updated_at :: datetime
  last_checked :: "datetime option"
  last_error :: "string option"

definition is_expired :: "bool \<Rightarrow> CertDomain \<Rightarrow> world \<Rightarrow> (py_exception + bool) \<times> world" where
  "is_expired loaded self w =
     (case expires_at self of
        Some e \<Rightarrow>
          (let (t, w1) = datetime_now w
           in (datetime_lt (if loaded then Naive e else Aware e) (Aware t), w1))
      | None \<Rightarrow> (Inr False, w))"

definition is_revoked :: "CertDomain \<Rightarrow> bool" where
  "is_revoked self = (state self = ''revoked'')"

definition is_valid :: "bool \<Rightarrow> CertDomain \<Rightarrow> world \<Rightarrow> (py_exception + bool) \<times> world" where
  "is_valid loaded self w =
     (if state self = ''issued'' then
        (case is_expired loaded self w of
           (Inl err, w1) \<Rightarrow> (Inl err, w1)
         | (Inr ex, w1) \<Rightarrow> if \<not> ex then (Inr (\<not> is_revoked self), w1) else (Inr False, w1))
      else (Inr False, w))"

section \<open>The state machine (app.py)\<close>

definition FSM_STATES :: "string list" where
  "FSM_STATES = [''unissued'', ''requesting'', ''validating'', ''issued'', ''renewing'',
                 ''renewed'', ''failed'', ''expired'', ''revoked'', ''invalid'']"

record transition =
  trigger :: string
  source :: string
  dest :: string

definition FSM_TRANSITIONS :: "transition list" where
  "FSM_TRANSITIONS =
    [\<lparr>trigger = ''request_cert'', source = ''unissued'', dest = ''requesting''\<rparr>,
     \<lparr>trigger = ''validate_ok'', source = ''validating'', dest = ''issued''\<rparr>,
     \<lparr>trigger = ''request_renewal'', source = ''issued'', dest = ''renewing''\<rparr>,
     \<lparr>trigger = ''renew_success'', source = ''renewing'', dest = ''renewed''\<rparr>,
     \<lparr>trigger = ''expired_detected'', source = ''issued'', dest = ''expired''\<rparr>,
     \<lparr>trigger = ''manual_revoke'', source = ''*'', dest = ''revoked''\<rparr>,
     \<lparr>trigger = ''invalidate'', source = ''*'', dest = ''invalid''\<rparr>,
     \<lparr>trigger = ''continue_cycle'', source = ''renewed'', dest = ''issued''\<rparr>]"

text \<open>
  \<^verbatim>\<open>transition_domain\<close> builds
  \<^verbatim>\<open>Machine(model=model, states=FSM_STATES, transitions=FSM_TRANSITIONS, initial=current_state)\<close>
  from the \<^verbatim>\<open>transitions\<close> library with every other option at its default, and
  then calls \<^verbatim>\<open>getattr(model, event)()\<close>. What the library does there:
  \<^item> the machine's states are \<^verbatim>\<open>FSM_STATES\<close>, and the initial state is added
    when it is not among them;
  \<^item> \<^verbatim>\<open>auto_transitions\<close> defaults to true: for every state \<open>s\<close> of the machine
    an event \<^verbatim>\<open>to_<s>\<close> is bound to the model, leading to \<open>s\<close> from any state;
  \<^item> every trigger of the table is bound to the model as an event; a source
    \<^verbatim>\<open>*\<close> stands for every state of the machine;
  \<^item> firing an event runs the first transition registered under its name for the
    current state and sets the model's state to its destination; when there is none it
    raises \<^verbatim>\<open>MachineError\<close> ("Can't trigger event <event> from state <state>!").
\<close>

definition machine_states :: "string \<Rightarrow> string list" where
  "machine_states initial =
     (if initial \<in> set FSM_STATES then FSM_STATES else FSM_STATES @ [initial])"

definition auto_transitions :: "string list \<Rightarrow> transition list" where
  "auto_transitions sts = map (\<lambda>s. \<lparr>trigger = ''to_'' @ s, source = ''*'', dest = s\<rparr>) sts"

definition machine_transitions :: "string \<Rightarrow> transition list" where
  "machine_transitions initial = auto_transitions (machine_states initial) @ FSM_TRANSITIONS"

definition fire :: "transition list \<Rightarrow> string \<Rightarrow> string \<Rightarrow> py_exception + string" where
  "fire ts event cur =
     (case find (\<lambda>t. trigger t = event \<and> (source t = cur \<or> source t = ''*'')) ts of
        Some t \<Rightarrow> Inr (dest t)
      | None \<Rightarrow> Inl (MachineError (''Can't trigger event '' @ event @ '' from state '' @ cur @ ''!'')))"

text \<open>
  Besides the events, the model object answers to other attribute names: those of
  every Python object (\<^verbatim>\<open>__repr__\<close>, \<^verbatim>\<open>__class__\<close>, ...), the wrapper's own
  \<^verbatim>\<open>state\<close>, and the library's helpers (\<^verbatim>\<open>is_<state>\<close>, \<^verbatim>\<open>trigger\<close>, ...).
  None of these names is an event name, and calling one without arguments either returns,
  leaving the model's state as it is, or raises. They are a parameter of the model: a name
  it does not bind raises \<^verbatim>\<open>AttributeError\<close>.
\<close>

datatype py_call = Returns | Raises py_exception

type_synonym py_attrs = "string \<Rightarrow> py_call option"

definition model_call :: "py_attrs \<Rightarrow> string \<Rightarrow> string \<Rightarrow> py_exception + string" where
  "model_call other event current_state =
     (if event \<in> set (map trigger (machine_transitions current_state))
      then fire (machine_transitions current_state) event current_state
      else (case other event of
              None \<Rightarrow> Inl (AttributeError event)
            | Some Returns \<Rightarrow> Inr current_state
            | Some (Raises e) \<Rightarrow> Inl e))"

section \<open>The API and the orchestrator (app.py)\<close>

text \<open>
  The table is the list of its rows. \<^verbatim>\<open>select(CertDomain).where(CertDomain.domain == d)\<close>
  with \<^verbatim>\<open>scalar_one_or_none()\<close> is the row of that domain, if any (the column is
  unique); committing a changed row replaces the row with its primary key.
\<close>

definition scalar_one_or_none :: "CertDomain list \<Rightarrow> string \<Rightarrow> CertDomain option" where
  "scalar_one_or_none rows d = find (\<lambda>r. domain r = d) rows"

definition commit :: "CertDomain \<Rightarrow> CertDomain list \<Rightarrow> CertDomain list" where
  "commit entry rows = map (\<lambda>r. if row_id r = row_id entry then entry else r) rows"

datatype task = Issuance string | Renewal string | Revocation string

record system =
  db :: "CertDomain list"
  certbot :: CertbotMock
  tasks :: "task list"
  env :: world

text \<open>
  The detail of an \<^verbatim>\<open>HTTPException\<close> is a text, or, for a failed transition,
  "Transition failed: " followed by the text of the exception, which is kept as it is.
\<close>

datatype detail = Text string | TransitionFailed py_exception

datatype http_exception = HTTPException nat detail

definition add_domain :: "string \<Rightarrow> system \<Rightarrow> (http_exception + string \<times> string) \<times> system" where
  "add_domain d s =
     (case scalar_one_or_none (db s) d of
        Some existing \<Rightarrow> (Inl (HTTPException 400 (Text ''Domain already exists'')), s)
      | None \<Rightarrow>
          (let (t1, w1) = datetime_now (env s);
               (t2, w2) = datetime_now w1;
               entry = \<lparr>row_id = Suc (length (db s)), domain = d, enabled = True,
                        state = ''unissued'', expires_at = None, created_at = t1,
                        updated_at = t2, last_checked = None, last_error = None\<rparr>
           in (Inr (domain entry, state entry), s\<lparr>db := db s @ [entry], env := w2\<rparr>)))"

definition list_domains :: "system \<Rightarrow> (string \<times> string) list" where
  "list_domains s = map (\<lambda>r. (domain r, state r)) (db s)"

definition transition_domain ::
  "py_attrs \<Rightarrow> string \<Rightarrow> string \<Rightarrow> system \<Rightarrow> (http_exception + string \<times> string) \<times> system" where
  "transition_domain other d event s =
     (case scalar_one_or_none (db s) d of
        None \<Rightarrow> (Inl (HTTPException 404 (Text ''Domain not found'')), s)
      | Some entry \<Rightarrow>
          (let current_state = state entry
           in case model_call other event current_state of
                Inl e \<Rightarrow> (Inl (HTTPException 400 (TransitionFailed e)), s)
              | Inr new_state \<Rightarrow>
                  (let (t1, w1) = datetime_now (env s);
                       (t2, w2) = datetime_now w1;
                       entry' = entry\<lparr>state := new_state, last_checked := Some t1,
                                       updated_at := t2\<rparr>
                   in (Inr (d, new_state), s\<lparr>db := commit entry' (db s), env := w2\<rparr>))))"

record started =
  resp_status :: string
  message :: string
  previous_state :: string

definition issue_certificate :: "string \<Rightarrow> system \<Rightarrow> (http_exception + started) \<times> system" where
  "issue_certificate d s =
     (case scalar_one_or_none (db s) d of
        None \<Rightarrow> (Inl (HTTPException 404 (Text ''Domain not found'')), s)
      | Some entry \<Rightarrow>
          if state entry \<notin> set [''unissued'', ''failed'', ''expired''] then
            (Inl (HTTPException 400
                   (Text (''Cannot issue certificate for domain in state: '' @ state entry))), s)
          else
            (Inr \<lparr>resp_status = ''started'',
                  message = ''Certificate issuance started for '' @ d,
                  previous_state = state entry\<rparr>,
             s\<lparr>tasks := tasks s @ [Issuance d]\<rparr>))"

definition renew_certificate :: "string \<Rightarrow> system \<Rightarrow> (http_exception + started) \<times> system" where
  "renew_certificate d s =
     (case scalar_one_or_none (db s) d of
        None \<Rightarrow> (Inl (HTTPException 404 (Text ''Domain not found'')), s)
      | Some entry \<Rightarrow>
          if state entry \<notin> set [''issued''] then
            (Inl (HTTPException 400
                   (Text (''Cannot renew certificate for domain in state: '' @ state entry))), s)
          else
            (Inr \<lparr>resp_status = ''started'',
                  message = ''Certificate renewal started for '' @ d,
                  previous_state = state entry\<rparr>,
             s\<lparr>tasks := tasks s @ [Renewal d]\<rparr>))"

definition revoke_certificate :: "string \<Rightarrow> system \<Rightarrow> (http_exception + started) \<times> system" where
  "revoke_certificate d s =
     (case scalar_one_or_none (db s) d of
        None \<Rightarrow> (Inl (HTTPException 404 (Text ''Domain not found'')), s)
      | Some entry \<Rightarrow>
          if state entry \<notin> set [''issued'', ''renewed''] then
            (Inl (HTTPException 400
                   (Text (''Cannot revoke certificate for domain in state: '' @ state entry))), s)
          else
            (Inr \<lparr>resp_status = ''started'',
                  message = ''Certificate revocation started for '' @ d,
                  previous_state = state entry\<rparr>,
             s\<lparr>tasks := tasks s @ [Revocation d]\<rparr>))"

text \<open>The deferred operations. Each runs as one step here; interleavings are not modelled.\<close>

definition perform_certificate_issuance :: "string \<Rightarrow> system \<Rightarrow> system" where
  "perform_certificate_issuance d s =
     (case scalar_one_or_none (db s) d of
        None \<Rightarrow> s
      | Some entry \<Rightarrow>
          (let (t0, w0) = datetime_now (env s);
               entry1 = entry\<lparr>state := ''requesting'', updated_at := t0\<rparr>;
               db1 = commit entry1 (db s);
               ((success, error_msg, expires), cb, w1) =
                  certbot_issue_certificate (certbot s) d w0;
               entry2 = (if success
                         then entry1\<lparr>state := ''issued'', expires_at := expires,
                                     last_error := None\<rparr>
                         else entry1\<lparr>state := ''failed'', last_error := error_msg\<rparr>);
               (t1, w2) = datetime_now w1;
               (t2, w3) = datetime_now w2;
               entry3 = entry2\<lparr>last_checked := Some t1, updated_at := t2\<rparr>
           in s\<lparr>db := commit entry3 db1, certbot := cb, env := w3\<rparr>))"

definition perform_certificate_renewal :: "string \<Rightarrow> system \<Rightarrow> system" where
  "perform_certificate_renewal d s =
     (case scalar_one_or_none (db s) d of
        None \<Rightarrow> s
      | Some entry \<Rightarrow>
          (let (t0, w0) = datetime_now (env s);
               entry1 = entry\<lparr>state := ''renewing'', updated_at := t0\<rparr>;
               db1 = commit entry1 (db s);
               ((success, error_msg, expires), cb, w1) =
                  certbot_renew_certificate (certbot s) d w0;
               entry2 = (if success
                         then entry1\<lparr>state := ''renewed'', expires_at := expires,
                                     last_error := None\<rparr>
                         else entry1\<lparr>state := ''failed'', last_error := error_msg\<rparr>);
               (t1, w2) = datetime_now w1;
               (t2, w3) = datetime_now w2;
               entry3 = entry2\<lparr>last_checked := Some t1, updated_at := t2\<rparr>
           in s\<lparr>db := commit entry3 db1, certbot := cb, env := w3\<rparr>))"

definition perform_certificate_revocation :: "string \<Rightarrow> system \<Rightarrow> system" where
  "perform_certificate_revocation d s =
     (case scalar_one_or_none (db s) d of
        None \<Rightarrow> s
      | Some entry \<Rightarrow>
          (let ((success, error_msg), cb, w1) =
                  certbot_revoke_certificate (certbot s) d (env s);
               entry2 = (if success
                         then entry\<lparr>state := ''revoked'', last_error := None\<rparr>
                         else entry\<lparr>state := ''failed'', last_error := error_msg\<rparr>);
               (t1, w2) = datetime_now w1;
               (t2, w3) = datetime_now w2;
               entry3 = entry2\<lparr>last_checked := Some t1, updated_at := t2\<rparr>
           in s\<lparr>db := commit entry3 (db s), certbot := cb, env := w3\<rparr>))"

text \<open>
  The status payload of the check; the expiry is kept as the instant, not as its ISO text.
  When the check does not set \<^verbatim>\<open>updated_at\<close> itself, the column's
  \<^verbatim>\<open>onupdate\<close> default reads the clock for it at the commit.
\<close>

record status_info =
  info_domain :: string
  info_is_valid :: bool
  info_status :: string
  info_expires_at :: "datetime option"
  info_state :: string

definition check_certificate_status ::
  "string \<Rightarrow> system \<Rightarrow> (string \<times> string + status_info) \<times> system" where
  "check_certificate_status d s =
     (case scalar_one_or_none (db s) d of
        None \<Rightarrow> (Inl (''error'', ''Domain not found''), s)
      | Some entry \<Rightarrow>
          (let ((valid, st, expires), w1) = check_certificate (certbot s) d (env s);
               (t1, w2) = datetime_now w1;
               entry1 = entry\<lparr>last_checked := Some t1\<rparr>;
               (t2, w3) = datetime_now w2;
               entry2 = (if st = ''expired'' \<and> state entry1 \<noteq> ''expired''
                         then entry1\<lparr>state := ''expired'', updated_at := t2\<rparr>
                         else entry1\<lparr>updated_at := t2\<rparr>);
               entry3 = (case expires of
                           Some e \<Rightarrow> entry2\<lparr>expires_at := Some e\<rparr>
                         | None \<Rightarrow> entry2)
           in (Inr \<lparr>info_domain = d, info_is_valid = valid, info_status = st,
                     info_expires_at = expires, info_state = state entry3\<rparr>,
               s\<lparr>db := commit entry3 (db s), env := w3\<rparr>)))"

definition get_certificate_status ::
  "string \<Rightarrow> system \<Rightarrow> (http_exception + (string \<times> string + status_info)) \<times> system" where
  "get_certificate_status d s =
     (case scalar_one_or_none (db s) d of
        None \<Rightarrow> (Inl (HTTPException 404 (Text ''Domain not found'')), s)
      | Some entry \<Rightarrow>
          (let (status_info, s') = check_certificate_status d s in (Inr status_info, s')))"

text \<open>
  The operations of the system: the requests of the API and the deferred work, one step
  each, in any order.
\<close>

datatype operation =
    AddDomain string
  | ListDomains
  | Transition string string
  | Issue string
  | Renew string
  | Revoke string
  | DeferredIssue string
  | DeferredRenew string
  | DeferredRevoke string
  | Check string

fun apply_op :: "py_attrs \<Rightarrow> operation \<Rightarrow> system \<Rightarrow> system" where
  "apply_op other (AddDomain d) s = snd (add_domain d s)"
| "apply_op other ListDomains s = s"
| "apply_op other (Transition d event) s = snd (transition_domain other d event s)"
| "apply_op other (Issue d) s = snd (issue_certificate d s)"
| "apply_op other (Renew d) s = snd (renew_certificate d s)"
| "apply_op other (Revoke d) s = snd (revoke_certificate d s)"
| "apply_op other (DeferredIssue d) s = perform_certificate_issuance d s"
| "apply_op other (DeferredRenew d) s = perform_certificate_renewal d s"
| "apply_op other (DeferredRevoke d) s = perform_certificate_revocation d s"
| "apply_op other (Check d) s = snd (get_certificate_status d s)"

definition states_declared :: "system \<Rightarrow> bool" where
  "states_declared s = (\<forall>r \<in> set (db s). state r \<in> set FSM_STATES)"

section \<open>Runs and example systems\<close>

definition run :: "py_attrs \<Rightarrow> operation list \<Rightarrow> system \<Rightarrow> system" where
  "run other ops s = foldl (\<lambda>s op. apply_op other op s) s ops"

text \<open>
  An empty table, an authority that always succeeds without delay, and a clock given by
  its readings. \<open>late_clock\<close> advances by a microsecond per reading and jumps 91 days ahead
  at its tenth reading.
\<close>

definition example_system :: "(nat \<Rightarrow> datetime) \<Rightarrow> system" where
  "example_system clk =
     \<lparr>db = [], certbot = CertbotMock_init 1 0, tasks = [],
      env = \<lparr>clock = clk, ticks = 0, draws = (\<lambda>n. 1 / 2), drawn = 0, slept = []\<rparr>\<rparr>"

definition no_attrs :: py_attrs where
  "no_attrs = (\<lambda>name. None)"

definition late_clock :: "nat \<Rightarrow> datetime" where
  "late_clock n = (if n < 9 then int n else int n + timedelta_days 91)"

definition fresh_system :: system where
  "fresh_system = run no_attrs [AddDomain ''example.com''] (example_system int)"

definition issued_system :: "(nat \<Rightarrow> datetime) \<Rightarrow> system" where
  "issued_system clk =
     run no_attrs [AddDomain ''example.com'', Issue ''example.com'',
                   DeferredIssue ''example.com''] (example_system clk)"

definition revoked_system :: "(nat \<Rightarrow> datetime) \<Rightarrow> system" where
  "revoked_system clk =
     run no_attrs [Transition ''example.com'' ''manual_revoke''] (issued_system clk)"

definition fresh_entry :: CertDomain where
  "fresh_entry =
     \<lparr>row_id = 1, domain = ''example.com'', enabled = True, state = ''unissued'',
      expires_at = None, created_at = 0, updated_at = 1, last_checked = None,
      last_error = None\<rparr>"

definition issued_entry :: CertDomain where
  "issued_entry =
     \<lparr>row_id = 1, domain = ''example.com'', enabled = True, state = ''issued'',
      expires_at = Some (3 + timedelta_days 90), created_at = 0, updated_at = 6,
      last_checked = Some 5, last_error = None\<rparr>"

definition revoked_entry :: CertDomain where
  "revoked_entry =
     \<lparr>row_id = 1, domain = ''example.com'', enabled = True, state = ''revoked'',
      expires_at = Some (3 + timedelta_days 90), created_at = 0, updated_at = 8,
      last_checked = Some 7, last_error = None\<rparr>"

definition issued_cert :: cert where
  "issued_cert =
     \<lparr>status = ''issued'', cert_expires_at = 3 + timedelta_days 90, issued_at = 4,
      renewed_at = None, revoked_at = None\<rparr>"

definition soon_certbot :: CertbotMock where
  "soon_certbot =
     \<lparr>success_rate = 9 / 10, delay = 1,
      certs = [''example.com'' \<mapsto>
                 \<lparr>status = ''issued'', cert_expires_at = timedelta_days 29, issued_at = 0,
                  renewed_at = None, revoked_at = None\<rparr>]\<rparr>"

definition example_world :: world where
  "example_world = \<lparr>clock = int, ticks = 0, draws = (\<lambda>n. 1 / 2), drawn = 0, slept = []\<rparr>"

section \<open>Auxiliary facts\<close>

lemmas eval_defs = run_def example_system_def no_attrs_def CertbotMock_init_def
  add_domain_def transition_domain_def issue_certificate_def renew_certificate_def
  revoke_certificate_def perform_certificate_issuance_def perform_certificate_renewal_def
  perform_certificate_revocation_def check_certificate_status_def get_certificate_status_def
  certbot_issue_certificate_def certbot_renew_certificate_def certbot_revoke_certificate_def
  check_certificate_def datetime_now_def random_random_def time_sleep_def timedelta_days_def
  scalar_one_or_none_def commit_def model_call_def fire_def machine_transitions_def
  machine_states_def auto_transitions_def FSM_STATES_def FSM_TRANSITIONS_def Let_def
  fresh_system_def issued_system_def revoked_system_def fresh_entry_def issued_entry_def
  revoked_entry_def issued_cert_def late_clock_def

lemma fresh_lookup: "scalar_one_or_none (db fresh_system) ''example.com'' = Some fresh_entry"
  by (simp add: eval_defs)

lemma issued_lookup:
  "scalar_one_or_none (db (issued_system int)) ''example.com'' = Some issued_entry"
  by (simp add: eval_defs)

lemma issued_cert_lookup:
  "certs (certbot (issued_system int)) ''example.com'' = Some issued_cert"
  by (simp add: eval_defs)

lemma revoked_lookup:
  "scalar_one_or_none (db (revoked_system late_clock)) ''example.com'' = Some revoked_entry"
  by (simp add: eval_defs)

lemma scalar_one_or_none_mem:
  "scalar_one_or_none rows d = Some e \<Longrightarrow> e \<in> set rows \<and> domain e = d"
  unfolding scalar_one_or_none_def by (induction rows) (auto split: if_splits)

lemma scalar_one_or_none_commit:
  "scalar_one_or_none rows d = Some e \<Longrightarrow> row_id e' = row_id e \<Longrightarrow> domain e' = d
   \<Longrightarrow> scalar_one_or_none (commit e' rows) d = Some e'"
  unfolding scalar_one_or_none_def commit_def
  by (induction rows) (auto split: if_splits)

lemma set_commit: "set (commit e rows) \<subseteq> insert e (set rows)"
  unfolding commit_def by auto

lemma commit_commit:
  "row_id e2 = row_id e1 \<Longrightarrow> commit e2 (commit e1 rows) = commit e2 rows"
  unfolding commit_def by (induction rows) auto

lemma in_set_commitD: "r \<in> set (commit e rows) \<Longrightarrow> r = e \<or> r \<in> set rows"
  unfolding commit_def by auto

lemma find_Some_set: "find P xs = Some x \<Longrightarrow> x \<in> set xs \<and> P x"
  by (induction xs) (auto split: if_splits)

lemma find_app:
  "find P (xs @ ys) = (case find P xs of None \<Rightarrow> find P ys | Some x \<Rightarrow> Some x)"
  by (induction xs) auto

lemma declared_not_auto:
  assumes "event \<in> set (map trigger FSM_TRANSITIONS)"
  shows "find (\<lambda>t. trigger t = event \<and> Q t) (auto_transitions sts) = None"
proof -
  have "\<And>s. ''to_'' @ s \<noteq> event"
    using assms by (auto simp add: FSM_TRANSITIONS_def)
  then show ?thesis
    by (auto simp add: find_None_iff auto_transitions_def)
qed

lemma model_call_declared:
  assumes "event \<in> set (map trigger FSM_TRANSITIONS)"
  shows "model_call other event cur = fire FSM_TRANSITIONS event cur"
proof -
  have "event \<in> set (map trigger (machine_transitions cur))"
    using assms by (auto simp add: machine_transitions_def)
  then show ?thesis
    by (simp add: model_call_def fire_def machine_transitions_def find_app
          declared_not_auto [OF assms])
qed



text \<open>
  For the triggers the table declares, the generic transition follows the table: it is
  accepted exactly when a row with that trigger has the current state or the wildcard as
  its source, and is refused with \<^verbatim>\<open>MachineError\<close> otherwise.
\<close>

lemma declared_trigger_accepted_iff:
  assumes "event \<in> set (map trigger FSM_TRANSITIONS)"
  shows "(\<exists>n. model_call other event cur = Inr n) \<longleftrightarrow>
         (\<exists>t \<in> set FSM_TRANSITIONS. trigger t = event \<and> (source t = cur \<or> source t = ''*''))"
    and "(\<nexists>n. model_call other event cur = Inr n) \<longrightarrow>
         model_call other event cur =
           Inl (MachineError (''Can't trigger event '' @ event @ '' from state '' @ cur @ ''!''))"
  unfolding model_call_declared [OF assms] fire_def
  by (auto simp add: find_None_iff split: option.splits dest!: find_Some_set)

lemma dest_machine_transitions:
  "cur \<in> set FSM_STATES \<Longrightarrow> t \<in> set (machine_transitions cur) \<Longrightarrow> dest t \<in> set FSM_STATES"
  unfolding machine_transitions_def machine_states_def auto_transitions_def
  by (auto simp add: FSM_TRANSITIONS_def FSM_STATES_def)

lemma model_call_declared_state:
  assumes "cur \<in> set FSM_STATES" and "model_call other event cur = Inr n"
  shows "n \<in> set FSM_STATES"
proof (cases "event \<in> set (map trigger (machine_transitions cur))")
  case True
  with assms(2) obtain t where
    "find (\<lambda>t. trigger t = event \<and> (source t = cur \<or> source t = ''*''))
       (machine_transitions cur) = Some t" and n: "n = dest t"
    by (auto simp add: model_call_def fire_def split: option.splits)
  then have "t \<in> set (machine_transitions cur)"
    by (auto simp add: find_Some_iff)
  with assms(1) n show ?thesis by (simp add: dest_machine_transitions)
next
  case False
  with assms show ?thesis
    by (auto simp add: model_call_def split: option.splits py_call.splits)
qed


lemma check_status_entry:
  assumes "scalar_one_or_none (db s) d = Some entry"
    and "check_certificate (certbot s) d (env s) = ((valid, st, expires), w1)"
  shows "\<exists>entry'. scalar_one_or_none (db (snd (check_certificate_status d s))) d = Some entry'
       \<and> state entry' =
           (if st = ''expired'' \<and> state entry \<noteq> ''expired'' then ''expired'' else state entry)
       \<and> last_checked entry' = Some (clock w1 (ticks w1))
       \<and> expires_at entry' = (case expires of Some e \<Rightarrow> Some e | None \<Rightarrow> expires_at entry)
       \<and> last_error entry' = last_error entry
       \<and> domain entry' = domain entry \<and> enabled entry' = enabled entry
       \<and> created_at entry' = created_at entry
       \<and> fst (check_certificate_status d s) =
           Inr \<lparr>info_domain = d, info_is_valid = valid, info_status = st,
                info_expires_at = expires, info_state = state entry'\<rparr>"
  using assms scalar_one_or_none_mem [OF assms(1)]
  by (auto simp add: check_certificate_status_def datetime_now_def Let_def
        scalar_one_or_none_commit split: option.splits)

lemma states_declared_commit:
  "states_declared s \<Longrightarrow> state e \<in> set FSM_STATES \<Longrightarrow> db s' = commit e (db s)
   \<Longrightarrow> states_declared s'"
  unfolding states_declared_def using set_commit [of e "db s"] by auto

lemma add_domain_declared: "states_declared s \<Longrightarrow> states_declared (snd (add_domain d s))"
  by (auto simp add: add_domain_def states_declared_def datetime_now_def Let_def FSM_STATES_def
        split: option.splits)

lemma transition_domain_declared:
  assumes "states_declared s"
  shows "states_declared (snd (transition_domain other d event s))"
proof (cases "scalar_one_or_none (db s) d")
  case None
  with assms show ?thesis by (simp add: transition_domain_def)
next
  case (Some entry)
  then have cur: "state entry \<in> set FSM_STATES"
    using assms scalar_one_or_none_mem [OF Some] by (simp add: states_declared_def)
  show ?thesis
  proof (cases "model_call other event (state entry)")
    case (Inl e)
    with Some assms show ?thesis by (simp add: transition_domain_def)
  next
    case (Inr n)
    then have "n \<in> set FSM_STATES" using cur model_call_declared_state by blast
    then show ?thesis
      using Some Inr assms
      by (auto simp add: transition_domain_def datetime_now_def Let_def
            intro!: states_declared_commit [where s = s])
  qed
qed

lemma endpoints_declared:
  "states_declared s \<Longrightarrow> states_declared (snd (issue_certificate d s))"
  "states_declared s \<Longrightarrow> states_declared (snd (renew_certificate d s))"
  "states_declared s \<Longrightarrow> states_declared (snd (revoke_certificate d s))"
  by (auto simp add: issue_certificate_def renew_certificate_def revoke_certificate_def
        states_declared_def split: option.splits)

lemma states_declared_commit2:
  assumes "states_declared s" and "state e1 \<in> set FSM_STATES" and "state e2 \<in> set FSM_STATES"
    and "db s' = commit e2 (commit e1 (db s))"
  shows "states_declared s'"
proof -
  have "set (commit e2 (commit e1 (db s))) \<subseteq> insert e2 (insert e1 (set (db s)))"
    using set_commit [of e2 "commit e1 (db s)"] set_commit [of e1 "db s"] by auto
  with assms show ?thesis unfolding states_declared_def by auto
qed

lemma perform_issuance_declared:
  assumes "states_declared s"
  shows "states_declared (perform_certificate_issuance d s)"
proof (cases "scalar_one_or_none (db s) d")
  case None
  with assms show ?thesis by (simp add: perform_certificate_issuance_def)
next
  case (Some entry)
  obtain res cb w1 where r: "certbot_issue_certificate (certbot s) d
      (snd (datetime_now (env s))) = (res, cb, w1)"
    by (metis prod_cases3)
  obtain success msg ex where res: "res = (success, msg, ex)" by (metis prod_cases3)
  show ?thesis
    using Some r res assms
    by (auto simp add: perform_certificate_issuance_def Let_def FSM_STATES_def
          split: prod.splits intro!: states_declared_commit2 [where s = s])
qed

lemma perform_renewal_declared:
  assumes "states_declared s"
  shows "states_declared (perform_certificate_renewal d s)"
proof (cases "scalar_one_or_none (db s) d")
  case None
  with assms show ?thesis by (simp add: perform_certificate_renewal_def)
next
  case (Some entry)
  show ?thesis
    using Some assms
    by (auto simp add: perform_certificate_renewal_def Let_def FSM_STATES_def
          split: prod.splits intro!: states_declared_commit2 [where s = s])
qed

lemma perform_revocation_declared:
  assumes "states_declared s"
  shows "states_declared (perform_certificate_revocation d s)"
proof (cases "scalar_one_or_none (db s) d")
  case None
  with assms show ?thesis by (simp add: perform_certificate_revocation_def)
next
  case (Some entry)
  show ?thesis
    using Some assms
    by (auto simp add: perform_certificate_revocation_def Let_def FSM_STATES_def
          split: prod.splits intro!: states_declared_commit [where s = s])
qed

lemma check_status_declared:
  assumes "states_declared s"
  shows "states_declared (snd (get_certificate_status d s))"
proof (cases "scalar_one_or_none (db s) d")
  case None
  with assms show ?thesis by (simp add: get_certificate_status_def)
next
  case (Some entry)
  then have cur: "state entry \<in> set FSM_STATES"
    using assms scalar_one_or_none_mem [OF Some] by (simp add: states_declared_def)
  have exp: "''expired'' \<in> set FSM_STATES" by (simp add: FSM_STATES_def)
  show ?thesis
    using Some assms cur exp
    unfolding states_declared_def
    by (auto simp add: get_certificate_status_def check_certificate_status_def Let_def
          split: prod.splits option.splits dest!: in_set_commitD)
qed

lemma apply_op_declared: "states_declared s \<Longrightarrow> states_declared (apply_op other op s)"
  by (cases op)
     (simp_all add: add_domain_declared transition_domain_declared endpoints_declared
        perform_issuance_declared perform_renewal_declared perform_revocation_declared
        check_status_declared)

section \<open>The claims\<close>

text \<open>
  C1. After any operation of the system (create, list, generic transition, the three
  orchestrated requests, the three deferred operations, check), and so after any sequence
  of them, the state of every domain record is one of the ten declared states, provided
  it was so before; it is so in the empty table.
\<close>

theorem C1_state_always_declared:
  "states_declared s \<Longrightarrow> states_declared (run other ops s)"
  unfolding run_def
  by (induction ops arbitrary: s) (simp_all add: apply_op_declared)

theorem C1_state_always_declared_witness:
  "states_declared (example_system late_clock)
   \<and> scalar_one_or_none
        (db (run no_attrs [AddDomain ''example.com'', Issue ''example.com'',
               DeferredIssue ''example.com'', Transition ''example.com'' ''manual_revoke'']
               (example_system late_clock))) ''example.com'' = Some revoked_entry
   \<and> states_declared
        (run no_attrs [AddDomain ''example.com'', Issue ''example.com'',
               DeferredIssue ''example.com'', Transition ''example.com'' ''manual_revoke'']
               (example_system late_clock))"
proof -
  have h: "states_declared (example_system late_clock)"
    by (simp add: states_declared_def example_system_def)
  have l: "scalar_one_or_none
        (db (run no_attrs [AddDomain ''example.com'', Issue ''example.com'',
               DeferredIssue ''example.com'', Transition ''example.com'' ''manual_revoke'']
               (example_system late_clock))) ''example.com'' = Some revoked_entry"
    by (simp add: eval_defs)
  show ?thesis
    using h l C1_state_always_declared [OF h, of no_attrs
        "[AddDomain ''example.com'', Issue ''example.com'',
          DeferredIssue ''example.com'', Transition ''example.com'' ''manual_revoke'']"]
    by simp
qed

text \<open>
  C2. For an existing domain record, the Issue request is rejected with status 400 exactly
  when the record's state is not unissued, failed or expired; Renew exactly when it is not
  issued; Revoke exactly when it is neither issued nor renewed. A rejected request leaves
  the whole system as it was (no task scheduled, no record changed); an accepted one
  schedules its deferred operation.
\<close>

theorem C2_preconditions:
  assumes "scalar_one_or_none (db s) d = Some entry"
  shows "((\<exists>dt. fst (issue_certificate d s) = Inl (HTTPException 400 dt)) \<longleftrightarrow>
            state entry \<notin> {''unissued'', ''failed'', ''expired''})
       \<and> ((\<exists>dt. fst (renew_certificate d s) = Inl (HTTPException 400 dt)) \<longleftrightarrow>
            state entry \<notin> {''issued''})
       \<and> ((\<exists>dt. fst (revoke_certificate d s) = Inl (HTTPException 400 dt)) \<longleftrightarrow>
            state entry \<notin> {''issued'', ''renewed''})
       \<and> (state entry \<notin> {''unissued'', ''failed'', ''expired''} \<longrightarrow>
            snd (issue_certificate d s) = s)
       \<and> (state entry \<notin> {''issued''} \<longrightarrow> snd (renew_certificate d s) = s)
       \<and> (state entry \<notin> {''issued'', ''renewed''} \<longrightarrow> snd (revoke_certificate d s) = s)
       \<and> (state entry \<in> {''unissued'', ''failed'', ''expired''} \<longrightarrow>
            tasks (snd (issue_certificate d s)) = tasks s @ [Issuance d])
       \<and> (state entry \<in> {''issued''} \<longrightarrow>
            tasks (snd (renew_certificate d s)) = tasks s @ [Renewal d])
       \<and> (state entry \<in> {''issued'', ''renewed''} \<longrightarrow>
            tasks (snd (revoke_certificate d s)) = tasks s @ [Revocation d])"
  using assms
  by (simp add: issue_certificate_def renew_certificate_def revoke_certificate_def)

theorem C2_preconditions_witness:
  "scalar_one_or_none (db fresh_system) ''example.com'' = Some fresh_entry
   \<and> (\<exists>dt. fst (renew_certificate ''example.com'' fresh_system) = Inl (HTTPException 400 dt))
   \<and> snd (renew_certificate ''example.com'' fresh_system) = fresh_system
   \<and> (\<exists>dt. fst (revoke_certificate ''example.com'' fresh_system) = Inl (HTTPException 400 dt))
   \<and> snd (revoke_certificate ''example.com'' fresh_system) = fresh_system
   \<and> \<not> (\<exists>dt. fst (issue_certificate ''example.com'' fresh_system) = Inl (HTTPException 400 dt))
   \<and> tasks (snd (issue_certificate ''example.com'' fresh_system))
       = tasks fresh_system @ [Issuance ''example.com'']"
  using fresh_lookup C2_preconditions [OF fresh_lookup]
  by (simp add: fresh_entry_def)

text \<open>
  C3. The authority's check returns not\_found when the domain has no authority record;
  revoked when the record's status is revoked, whatever its expiry; expired when the expiry
  lies before the clock reading; expiring\_soon when it lies less than 30 days after the
  clock reading; valid otherwise. The validity flag is true exactly for valid and
  expiring\_soon. Nothing is slept and nothing is drawn. (The two comparisons each read the
  clock; the readings are the same instant when the clock has not advanced.)
\<close>

theorem C3_check_classification:
  "(certs self d = None \<longrightarrow> fst (check_certificate self d w) = (False, ''not_found'', None))
   \<and> (\<forall>c. certs self d = Some c \<longrightarrow>
         fst (check_certificate self d w) =
           (if status c = ''revoked'' then (False, ''revoked'', None)
            else if cert_expires_at c < clock w (ticks w)
              then (False, ''expired'', Some (cert_expires_at c))
            else if cert_expires_at c < clock w (Suc (ticks w)) + timedelta_days 30
              then (True, ''expiring_soon'', Some (cert_expires_at c))
            else (True, ''valid'', Some (cert_expires_at c))))
   \<and> (fst (fst (check_certificate self d w)) \<longleftrightarrow>
        fst (snd (fst (check_certificate self d w))) \<in> {''valid'', ''expiring_soon''})
   \<and> slept (snd (check_certificate self d w)) = slept w
   \<and> drawn (snd (check_certificate self d w)) = drawn w"
  by (simp add: check_certificate_def datetime_now_def Let_def split: option.splits)

theorem C3_check_classification_witness:
  "certs soon_certbot ''example.com'' \<noteq> None
   \<and> certs soon_certbot ''other.example'' = None
   \<and> fst (check_certificate soon_certbot ''example.com'' example_world)
       = (True, ''expiring_soon'', Some (timedelta_days 29))
   \<and> fst (check_certificate soon_certbot ''other.example'' example_world)
       = (False, ''not_found'', None)"
  using C3_check_classification [of soon_certbot "''example.com''" example_world]
    C3_check_classification [of soon_certbot "''other.example''" example_world]
  by (simp add: soon_certbot_def example_world_def timedelta_days_def)

text \<open>
  C4. When the domain has an authority record with stored expiry T, a successful renewal
  (the draw is below the success rate) returns T + 90 days whatever the clock reads, stores
  it as the authority record's expiry, and the deferred renewal leaves the domain record in
  state renewed with that value as its expiry and no last error.
\<close>

theorem C4_renew_compounds:
  assumes "scalar_one_or_none (db s) d = Some entry"
    and "certs (certbot s) d = Some c"
    and "draws (env s) (drawn (env s)) < success_rate (certbot s)"
  shows "(\<forall>w. draws w (drawn w) < success_rate (certbot s) \<longrightarrow>
            fst (certbot_renew_certificate (certbot s) d w) =
              (True, None, Some (cert_expires_at c + timedelta_days 90)))
       \<and> (\<exists>c'. certs (certbot (perform_certificate_renewal d s)) d = Some c'
              \<and> cert_expires_at c' = cert_expires_at c + timedelta_days 90)
       \<and> (\<exists>entry'. scalar_one_or_none (db (perform_certificate_renewal d s)) d = Some entry'
              \<and> state entry' = ''renewed''
              \<and> expires_at entry' = Some (cert_expires_at c + timedelta_days 90)
              \<and> last_error entry' = None)"
  using assms scalar_one_or_none_mem [OF assms(1)]
  by (auto simp add: perform_certificate_renewal_def certbot_renew_certificate_def
        datetime_now_def random_random_def time_sleep_def Let_def
        scalar_one_or_none_commit commit_commit)

theorem C4_renew_compounds_witness:
  "scalar_one_or_none (db (issued_system int)) ''example.com'' = Some issued_entry
   \<and> certs (certbot (issued_system int)) ''example.com'' = Some issued_cert
   \<and> draws (env (issued_system int)) (drawn (env (issued_system int)))
       < success_rate (certbot (issued_system int))
   \<and> (\<exists>entry'. scalar_one_or_none
          (db (perform_certificate_renewal ''example.com'' (issued_system int)))
          ''example.com'' = Some entry'
        \<and> state entry' = ''renewed''
        \<and> expires_at entry' = Some (3 + timedelta_days 90 + timedelta_days 90))"
proof -
  have h: "draws (env (issued_system int)) (drawn (env (issued_system int)))
             < success_rate (certbot (issued_system int))"
    by (simp add: eval_defs)
  show ?thesis
    using issued_lookup issued_cert_lookup h
      C4_renew_compounds [OF issued_lookup issued_cert_lookup h]
    by (auto simp add: issued_cert_def)
qed




text \<open>
  C6, as amended. With a success rate of 1, an Issue request accepted for an existing
  domain, followed by its deferred operation, leaves the record in state issued with no
  last error and with the authority record's expiry as its expiry. That expiry is the
  clock reading taken for it plus exactly 90 days; the authority's issuedAt is the next
  clock reading, so the expiry is issuedAt plus 90 days exactly when the two readings
  coincide.
\<close>

theorem C6_issue_success:
  assumes "issue_certificate d s = (Inr r, s1)"
    and "success_rate (certbot s) = 1"
    and "random_source_ok (env s)"
  shows "\<exists>entry' c'.
           scalar_one_or_none (db (perform_certificate_issuance d s1)) d = Some entry'
         \<and> certs (certbot (perform_certificate_issuance d s1)) d = Some c'
         \<and> state entry' = ''issued''
         \<and> last_error entry' = None
         \<and> expires_at entry' = Some (cert_expires_at c')
         \<and> status c' = ''issued''
         \<and> cert_expires_at c' = clock (env s) (Suc (ticks (env s))) + timedelta_days 90
         \<and> issued_at c' = clock (env s) (Suc (Suc (ticks (env s))))
         \<and> (expires_at entry' = Some (issued_at c' + timedelta_days 90) \<longleftrightarrow>
              clock (env s) (Suc (ticks (env s))) = clock (env s) (Suc (Suc (ticks (env s)))))"
proof -
  from assms(1) obtain entry where e: "scalar_one_or_none (db s) d = Some entry"
    and s1: "s1 = s\<lparr>tasks := tasks s @ [Issuance d]\<rparr>"
    by (auto simp add: issue_certificate_def split: option.splits if_splits)
  have dr: "draws (env s) (drawn (env s)) < 1"
    using assms(3) by (simp add: random_source_ok_def)
  show ?thesis
    using e s1 dr assms(2) scalar_one_or_none_mem [OF e]
    by (auto simp add: perform_certificate_issuance_def certbot_issue_certificate_def
          datetime_now_def random_random_def time_sleep_def Let_def
          scalar_one_or_none_commit commit_commit)
qed

theorem C6_issue_success_witness:
  "issue_certificate ''example.com'' fresh_system =
     (Inr \<lparr>resp_status = ''started'',
           message = ''Certificate issuance started for example.com'',
           previous_state = ''unissued''\<rparr>,
      fresh_system\<lparr>tasks := [Issuance ''example.com'']\<rparr>)
   \<and> success_rate (certbot fresh_system) = 1
   \<and> random_source_ok (env fresh_system)
   \<and> (\<exists>entry' c'.
         scalar_one_or_none
           (db (perform_certificate_issuance ''example.com''
                  (fresh_system\<lparr>tasks := [Issuance ''example.com'']\<rparr>))) ''example.com''
           = Some entry'
       \<and> certs (certbot (perform_certificate_issuance ''example.com''
                  (fresh_system\<lparr>tasks := [Issuance ''example.com'']\<rparr>))) ''example.com''
           = Some c'
       \<and> state entry' = ''issued'' \<and> last_error entry' = None
       \<and> expires_at entry' = Some (cert_expires_at c'))"
proof -
  have a: "issue_certificate ''example.com'' fresh_system =
     (Inr \<lparr>resp_status = ''started'',
           message = ''Certificate issuance started for example.com'',
           previous_state = ''unissued''\<rparr>,
      fresh_system\<lparr>tasks := [Issuance ''example.com'']\<rparr>)"
    by (simp add: eval_defs)
  have b: "success_rate (certbot fresh_system) = 1"
    by (simp add: eval_defs)
  have c: "random_source_ok (env fresh_system)"
    by (simp add: random_source_ok_def eval_defs)
  show ?thesis
    using a b c C6_issue_success [OF a b c] by blast
qed

text \<open>
  C6 as stated fails: the authority reads the clock once for the expiry and once more for
  issuedAt. With a clock that advances by a microsecond per reading, the stored expiry is
  reading 3 plus 90 days while issuedAt is reading 4.
\<close>

theorem C6_counterexample:
  "success_rate (certbot (issued_system int)) = 1
   \<and> map_option state (scalar_one_or_none (db (issued_system int)) ''example.com'')
       = Some ''issued''
   \<and> map_option expires_at (scalar_one_or_none (db (issued_system int)) ''example.com'')
       = Some (Some (3 + timedelta_days 90))
   \<and> map_option issued_at (certs (certbot (issued_system int)) ''example.com'') = Some 4
   \<and> 3 + timedelta_days 90 \<noteq> 4 + timedelta_days 90"
  by (simp add: eval_defs)

text \<open>
  C7. For an existing domain record, the check sets the state to expired exactly when the
  authority's check returned expired and the state was not expired already, and leaves the
  state as it was in every other case; it always sets lastChecked to the clock reading;
  it sets the record's expiry exactly when the authority returned one; the last error and
  the other fields stay; the payload reports the authority's answer and the resulting state.
\<close>

theorem C7_check_operation:
  assumes "scalar_one_or_none (db s) d = Some entry"
    and "check_certificate (certbot s) d (env s) = ((valid, st, expires), w1)"
  shows "\<exists>entry'. scalar_one_or_none (db (snd (check_certificate_status d s))) d = Some entry'
       \<and> state entry' =
           (if st = ''expired'' \<and> state entry \<noteq> ''expired'' then ''expired'' else state entry)
       \<and> (state entry' = ''expired'' \<and> state entry \<noteq> ''expired'' \<longleftrightarrow>
            st = ''expired'' \<and> state entry \<noteq> ''expired'')
       \<and> last_checked entry' = Some (clock w1 (ticks w1))
       \<and> expires_at entry' = (case expires of Some e \<Rightarrow> Some e | None \<Rightarrow> expires_at entry)
       \<and> last_error entry' = last_error entry
       \<and> domain entry' = domain entry \<and> enabled entry' = enabled entry
       \<and> created_at entry' = created_at entry
       \<and> fst (check_certificate_status d s) =
           Inr \<lparr>info_domain = d, info_is_valid = valid, info_status = st,
                info_expires_at = expires, info_state = state entry'\<rparr>"
  using check_status_entry [OF assms] by auto

theorem C7_check_operation_witness:
  "scalar_one_or_none (db (revoked_system late_clock)) ''example.com'' = Some revoked_entry
   \<and> check_certificate (certbot (revoked_system late_clock)) ''example.com''
        (env (revoked_system late_clock))
      = ((False, ''expired'', Some (3 + timedelta_days 90)),
         \<lparr>clock = late_clock, ticks = 10, draws = (\<lambda>n. 1 / 2), drawn = 1, slept = [0]\<rparr>)
   \<and> (\<exists>entry'. scalar_one_or_none
          (db (snd (check_certificate_status ''example.com'' (revoked_system late_clock))))
          ''example.com'' = Some entry'
        \<and> state entry' = ''expired''
        \<and> last_checked entry' = Some (late_clock 10)
        \<and> expires_at entry' = Some (3 + timedelta_days 90))"
proof -
  have c: "check_certificate (certbot (revoked_system late_clock)) ''example.com''
        (env (revoked_system late_clock))
      = ((False, ''expired'', Some (3 + timedelta_days 90)),
         \<lparr>clock = late_clock, ticks = 10, draws = (\<lambda>n. 1 / 2), drawn = 1, slept = [0]\<rparr>)"
    by (simp add: eval_defs)
  have st: "state revoked_entry = ''revoked''"
    by (simp add: revoked_entry_def)
  show ?thesis
    using revoked_lookup c st C7_check_operation [OF revoked_lookup c]
    by auto
qed

text \<open>
  C8. For a domain with no authority record, renew and revoke fail at once with the
  message "Mock: No certificate found for <domain>": nothing is slept, nothing is drawn
  from the random source, the clock is not read, and the authority's state is unchanged.
\<close>

theorem C8_renew_revoke_without_record:
  assumes "certs self d = None"
  shows "certbot_renew_certificate self d w =
           ((False, Some (''Mock: No certificate found for '' @ d), None), self, w)
       \<and> certbot_revoke_certificate self d w =
           ((False, Some (''Mock: No certificate found for '' @ d)), self, w)"
  using assms by (simp add: certbot_renew_certificate_def certbot_revoke_certificate_def)

theorem C8_renew_revoke_without_record_witness:
  "certs (CertbotMock_init (9 / 10) 1) ''example.com'' = None
   \<and> certbot_renew_certificate (CertbotMock_init (9 / 10) 1) ''example.com''
         \<lparr>clock = (\<lambda>n. int n), ticks = 0, draws = (\<lambda>n. 0), drawn = 0, slept = []\<rparr>
       = ((False, Some ''Mock: No certificate found for example.com'', None),
          CertbotMock_init (9 / 10) 1,
          \<lparr>clock = (\<lambda>n. int n), ticks = 0, draws = (\<lambda>n. 0), drawn = 0, slept = []\<rparr>)
   \<and> certbot_revoke_certificate (CertbotMock_init (9 / 10) 1) ''example.com''
         \<lparr>clock = (\<lambda>n. int n), ticks = 0, draws = (\<lambda>n. 0), drawn = 0, slept = []\<rparr>
       = ((False, Some ''Mock: No certificate found for example.com''),
          CertbotMock_init (9 / 10) 1,
          \<lparr>clock = (\<lambda>n. int n), ticks = 0, draws = (\<lambda>n. 0), drawn = 0, slept = []\<rparr>)"
proof -
  have h: "certs (CertbotMock_init (9 / 10) 1) ''example.com'' = None"
    by (simp add: CertbotMock_init_def)
  show ?thesis
    using h C8_renew_revoke_without_record [OF h,
        of "\<lparr>clock = (\<lambda>n. int n), ticks = 0, draws = (\<lambda>n. 0), drawn = 0, slept = []\<rparr>"]
    by simp
qed

text \<open>
  C9. The claim fails on the code. The machine is built with the library's default
  automatic transitions, so besides the triggers of the table the request accepts
  \<^verbatim>\<open>to_<state>\<close> for every state: on a revoked record the event \<^verbatim>\<open>to_issued\<close>,
  which no row of the table has as its trigger, succeeds and the record is persisted as
  issued.
\<close>

theorem C9_auto_transition_accepted:
  "''to_issued'' \<notin> set (map trigger FSM_TRANSITIONS)
   \<and> map_option state
       (scalar_one_or_none
          (db (run other [AddDomain ''example.com'',
                 Transition ''example.com'' ''manual_revoke''] (example_system int)))
          ''example.com'')
     = Some ''revoked''
   \<and> fst (transition_domain other ''example.com'' ''to_issued''
         (run other [AddDomain ''example.com'',
            Transition ''example.com'' ''manual_revoke''] (example_system int)))
     = Inr (''example.com'', ''issued'')
   \<and> map_option state
       (scalar_one_or_none
          (db (snd (transition_domain other ''example.com'' ''to_issued''
                 (run other [AddDomain ''example.com'',
                    Transition ''example.com'' ''manual_revoke''] (example_system int)))))
          ''example.com'')
     = Some ''issued''"
  by (simp add: eval_defs)

text \<open>
  What the validity helper does where it returns: for a record whose state is not issued
  (a renewed one, say) it returns false without looking at the expiry; with no expiry it
  returns whether the state is issued; on the aware value just assigned it returns true
  exactly when the state is issued and the expiry is not before the clock reading.
\<close>

lemma is_valid_returns:
  "(state self \<noteq> ''issued'' \<longrightarrow> is_valid loaded self w = (Inr False, w))
   \<and> (expires_at self = None \<longrightarrow> is_valid loaded self w = (Inr (state self = ''issued''), w))
   \<and> (fst (is_valid False self w) =
        Inr (state self = ''issued'' \<and>
             (case expires_at self of None \<Rightarrow> True | Some e \<Rightarrow> \<not> e < clock w (ticks w))))"
  by (auto simp add: is_valid_def is_expired_def is_revoked_def datetime_now_def Let_def
        split: option.splits)

lemma is_valid_loaded_raises:
  "state self = ''issued'' \<Longrightarrow> expires_at self = Some e \<Longrightarrow>
   fst (is_valid True self w) =
     Inl (TypeError ''can't compare offset-naive and offset-aware datetimes'')"
  by (simp add: is_valid_def is_expired_def datetime_now_def Let_def)

text \<open>
  C10. The claim fails on the code. The row of a domain after a successful issuance, as
  the table holds it, is in state issued with an expiry 90 days ahead of the clock, so the
  helper should return true; but the expiry read back from the table is naive, its
  comparison with the aware \<^verbatim>\<open>datetime.now(timezone.utc)\<close> raises
  \<^verbatim>\<open>TypeError\<close>, and the helper returns nothing.
\<close>

theorem C10_is_valid_raises:
  "scalar_one_or_none (db (issued_system int)) ''example.com'' = Some issued_entry
   \<and> state issued_entry = ''issued''
   \<and> expires_at issued_entry = Some (3 + timedelta_days 90)
   \<and> clock (env (issued_system int)) (ticks (env (issued_system int))) = 7
   \<and> fst (is_valid True issued_entry (env (issued_system int)))
       = Inl (TypeError ''can't compare offset-naive and offset-aware datetimes'')"
  by (simp add: is_valid_def is_expired_def eval_defs)

end
